theory Spec2Isabelle
  imports Main "HOL-Library.Word"
begin

unbundle bit_operations_syntax

section \<open>sdl-jstest: a shallow embedding of \<^verbatim>\<open>src/sdl-jstest.c\<close>\<close>

text \<open>
  The program is one C file: \<^verbatim>\<open>print_bar\<close>, \<^verbatim>\<open>str2int\<close>,
  \<^verbatim>\<open>print_joystick_info\<close>, \<^verbatim>\<open>print_help\<close> and \<^verbatim>\<open>main\<close>.
  Everything the program reads from SDL, curses and the C library is an input of the
  model (the record \<open>environment\<close>); everything it writes is a field of the record
  \<open>streams\<close>: the bytes sent to stdout, the bytes sent to stderr, and the frames
  painted on the curses screen. A C string is the list of its bytes before the
  terminating NUL. \<^verbatim>\<open>int\<close> values are mathematical integers, except in the one
  expression whose value can leave the 32-bit range (the bar position), which is
  computed with the wrap-around of 32-bit two's complement arithmetic (\<open>int32\<close>).
\<close>

subsection \<open>C library: limits, exit codes, printf conversions\<close>

definition INT_MAX :: int where "INT_MAX = 2147483647"
definition INT_MIN :: int where "INT_MIN = - 2147483648"

text \<open>\<^verbatim>\<open>long\<close> as on LP64 (64 bits). Where \<^verbatim>\<open>long\<close> has 32 bits, every value
  outside the \<^verbatim>\<open>int\<close> range is reported by \<^verbatim>\<open>strtol\<close> as a range error instead.\<close>

definition LONG_MAX :: int where "LONG_MAX = 9223372036854775807"
definition LONG_MIN :: int where "LONG_MIN = - 9223372036854775808"

definition EXIT_SUCCESS :: int where "EXIT_SUCCESS = 0"
definition EXIT_FAILURE :: int where "EXIT_FAILURE = 1"
definition ERANGE :: int where "ERANGE = 34"

definition int_fits :: "int \<Rightarrow> bool" where
  "int_fits x = (INT_MIN \<le> x \<and> x \<le> INT_MAX)"

text \<open>The value a 32-bit \<^verbatim>\<open>int\<close> holds for the mathematical result \<open>x\<close> of an
  operation: \<open>x\<close> itself inside the range, and wrapped around modulo \<open>2^32\<close> outside
  (what the two's complement machine code of the program computes on overflow).\<close>

definition int32 :: "int \<Rightarrow> int" where
  "int32 x = (x + 2147483648) mod 4294967296 - 2147483648"

definition newline :: char where "newline = CHR 0x0A"
definition squote :: char where "squote = CHR 0x27"

definition digit_char :: "nat \<Rightarrow> char" where
  "digit_char d = ''0123456789'' ! d"

fun digits_of :: "nat \<Rightarrow> string" where
  "digits_of n = (if n < 10 then [digit_char n]
                  else digits_of (n div 10) @ [digit_char (n mod 10)])"

declare digits_of.simps [simp del]

text \<open>\<^verbatim>\<open>%d\<close>\<close>

definition printf_d :: "int \<Rightarrow> string" where
  "printf_d n = (if n < 0 then CHR ''-'' # digits_of (nat (- n)) else digits_of (nat n))"

text \<open>\<^verbatim>\<open>%2d\<close>, \<^verbatim>\<open>%6d\<close>: right-justified in a field of at least \<open>w\<close> characters.\<close>

definition printf_wd :: "nat \<Rightarrow> int \<Rightarrow> string" where
  "printf_wd w n = replicate (w - length (printf_d n)) CHR '' '' @ printf_d n"

text \<open>C's truncating division (the quotient rounds towards zero).\<close>

definition c_div :: "int \<Rightarrow> int \<Rightarrow> int" where
  "c_div a b = sgn a * sgn b * (\<bar>a\<bar> div \<bar>b\<bar>)"

subsection \<open>\<^verbatim>\<open>strtol\<close> and \<^verbatim>\<open>str2int\<close>\<close>

definition isspace :: "char \<Rightarrow> bool" where
  "isspace c = (c \<in> set [CHR '' '', CHR 0x09, CHR 0x0A, CHR 0x0B, CHR 0x0C, CHR 0x0D])"

definition isdigit :: "char \<Rightarrow> bool" where
  "isdigit c = (c \<in> set ''0123456789'')"

definition digit_value :: "char \<Rightarrow> int" where
  "digit_value c = int (of_char c) - 48"

definition decimal_value :: "string \<Rightarrow> int" where
  "decimal_value ds = foldl (\<lambda>acc c. acc * 10 + digit_value c) 0 ds"

text \<open>
  \<^verbatim>\<open>strtol(str, &endptr, 10)\<close> of ISO C: leading white space, an optional sign, then
  the longest run of decimal digits. The result is the value, the text \<^verbatim>\<open>endptr\<close>
  points to, and the value left in \<^verbatim>\<open>errno\<close> (the caller has set it to 0). With no
  digit there is no conversion: the value is 0 and \<^verbatim>\<open>endptr\<close> is \<^verbatim>\<open>str\<close> itself
  (glibc and musl leave \<^verbatim>\<open>errno\<close> alone then). A value outside \<^verbatim>\<open>long\<close> is clamped
  and sets \<^verbatim>\<open>ERANGE\<close>.
\<close>

definition strtol :: "string \<Rightarrow> int \<times> string \<times> int" where
  "strtol str =
     (let s1 = dropWhile isspace str;
          negative = (s1 \<noteq> [] \<and> hd s1 = CHR ''-'');
          s2 = (if s1 \<noteq> [] \<and> (hd s1 = CHR ''-'' \<or> hd s1 = CHR ''+'') then tl s1 else s1);
          ds = takeWhile isdigit s2;
          endptr = dropWhile isdigit s2;
          v = (if negative then - decimal_value ds else decimal_value ds)
      in if ds = [] then (0, str, 0)
         else if v > LONG_MAX then (LONG_MAX, endptr, ERANGE)
         else if v < LONG_MIN then (LONG_MIN, endptr, ERANGE)
         else (v, endptr, 0))"

text \<open>\<^verbatim>\<open>str2int\<close> returns 0 (here \<open>None\<close>) or stores the value and returns 1
  (here \<open>Some\<close> of the value).\<close>

definition str2int :: "string \<Rightarrow> int option" where
  "str2int str =
     (case strtol str of (tmp, endptr, errno) \<Rightarrow>
        if errno \<noteq> 0 then None
        else if endptr \<noteq> [] then None
        else if tmp < INT_MIN \<or> tmp > INT_MAX then None
        else Some tmp)"

subsection \<open>\<^verbatim>\<open>print_bar\<close> and the axis row\<close>

text \<open>\<^verbatim>\<open>print_bar(pos, len)\<close>: the characters it adds to the screen. The loop
  \<^verbatim>\<open>for(int i = 0; i < len; ++i)\<close> from the counter \<open>i\<close> on, then the function.\<close>

function print_bar_from :: "int \<Rightarrow> int \<Rightarrow> int \<Rightarrow> string" where
  "print_bar_from i pos len =
     (if i < len
      then (if i = pos then CHR ''#'' else CHR '' '') # print_bar_from (i + 1) pos len
      else [])"
  by pat_completeness auto
termination
  by (relation "measure (\<lambda>(i, pos, len). nat (len - i))") auto

declare print_bar_from.simps [simp del]

definition print_bar :: "int \<Rightarrow> int \<Rightarrow> string" where
  "print_bar pos len = CHR ''['' # print_bar_from 0 pos len @ '']''"

text \<open>The first argument of \<^verbatim>\<open>print_bar\<close> in \<^verbatim>\<open>main\<close>:
  \<^verbatim>\<open>(axes[i] + 32767) * (len-1) / 65534\<close>, every operation on \<^verbatim>\<open>int\<close> of 32 bits
  (\<^verbatim>\<open>axes[i]\<close> is promoted to \<^verbatim>\<open>int\<close>).\<close>

definition fill_pos :: "int \<Rightarrow> int \<Rightarrow> int" where
  "fill_pos v len = int32 (c_div (int32 (int32 (v + 32767) * int32 (len - 1))) 65534)"

subsection \<open>SDL: events and hat bits\<close>

type_synonym Sint16 = "16 word"
type_synonym Uint8 = "8 word"

text \<open>The hat position bits of \<^verbatim>\<open>SDL_joystick.h\<close>.\<close>

definition SDL_HAT_UP :: Uint8 where "SDL_HAT_UP = 0x01"
definition SDL_HAT_RIGHT :: Uint8 where "SDL_HAT_RIGHT = 0x02"
definition SDL_HAT_DOWN :: Uint8 where "SDL_HAT_DOWN = 0x04"
definition SDL_HAT_LEFT :: Uint8 where "SDL_HAT_LEFT = 0x08"

text \<open>
  \<^verbatim>\<open>SDL_Event\<close>, by its \<^verbatim>\<open>type\<close>. The joystick events carry \<^verbatim>\<open>which\<close>, the
  component (\<^verbatim>\<open>axis\<close>, \<^verbatim>\<open>button\<close>, \<^verbatim>\<open>hat\<close>, \<^verbatim>\<open>ball\<close>: a \<^verbatim>\<open>Uint8\<close>) and the
  values. \<open>SDL_OTHER t\<close> is an event of any other type \<open>t\<close>.
\<close>

datatype SDL_Event =
    SDL_JOYAXISMOTION int Uint8 Sint16
  | SDL_JOYBUTTONDOWN int Uint8 Uint8
  | SDL_JOYBUTTONUP int Uint8 Uint8
  | SDL_JOYHATMOTION int Uint8 Uint8
  | SDL_JOYBALLMOTION int Uint8 Sint16 Sint16
  | SDL_QUIT
  | SDL_OTHER int

subsection \<open>What the program writes\<close>

record streams =
  out :: string
  err :: string
  screen :: "string list"

definition no_output :: streams where
  "no_output = \<lparr>out = [], err = [], screen = []\<rparr>"

definition printf :: "string \<Rightarrow> streams \<Rightarrow> streams" where
  "printf s w = w\<lparr>out := out w @ s\<rparr>"

definition fprintf_stderr :: "string \<Rightarrow> streams \<Rightarrow> streams" where
  "fprintf_stderr s w = w\<lparr>err := err w @ s\<rparr>"

text \<open>How a run ends: \<^verbatim>\<open>exit\<close> or the return from \<^verbatim>\<open>main\<close> with a code, the
  \<^verbatim>\<open>abort\<close> of a failed \<^verbatim>\<open>assert\<close>, or still waiting for input when the events given
  to the model run out.\<close>

datatype result = Exited int streams | Aborted | Waiting streams

subsection \<open>Test mode: the snapshot and the event switch\<close>

text \<open>The locals of the \<^verbatim>\<open>--test\<close> branch: the four counts, the four \<^verbatim>\<open>calloc\<close>ed
  arrays (\<^verbatim>\<open>balls\<close> holds two entries per ball), \<^verbatim>\<open>quit\<close> and \<^verbatim>\<open>something_new\<close>.\<close>

record test_state =
  num_axes :: int
  num_buttons :: int
  num_hats :: int
  num_balls :: int
  axes :: "Sint16 list"
  buttons :: "Uint8 list"
  hats :: "Uint8 list"
  balls :: "Sint16 list"
  quit :: int
  something_new :: bool

definition init_state :: "int \<Rightarrow> int \<Rightarrow> int \<Rightarrow> int \<Rightarrow> test_state" where
  "init_state na nb nh nl =
     \<lparr>num_axes = na, num_buttons = nb, num_hats = nh, num_balls = nl,
      axes = replicate (nat na) 0, buttons = replicate (nat nb) 0,
      hats = replicate (nat nh) 0, balls = replicate (2 * nat nl) 0,
      quit = 0, something_new = True\<rparr>"

text \<open>The arrays have the lengths they were allocated with.\<close>

definition allocated :: "test_state \<Rightarrow> bool" where
  "allocated st =
     (0 \<le> num_axes st \<and> 0 \<le> num_buttons st \<and> 0 \<le> num_hats st \<and> 0 \<le> num_balls st \<and>
      length (axes st) = nat (num_axes st) \<and> length (buttons st) = nat (num_buttons st) \<and>
      length (hats st) = nat (num_hats st) \<and> length (balls st) = 2 * nat (num_balls st))"

text \<open>
  The body of the \<^verbatim>\<open>switch(event.type)\<close> of test mode. A failed \<^verbatim>\<open>assert\<close> aborts
  the process: \<open>None\<close>. (\<^verbatim>\<open>assert\<close> is the one of \<^verbatim>\<open>assert.h\<close> without \<^verbatim>\<open>NDEBUG\<close>.)
\<close>

fun dispatch :: "test_state \<Rightarrow> streams \<Rightarrow> SDL_Event \<Rightarrow> (test_state \<times> streams) option" where
  "dispatch st w (SDL_JOYAXISMOTION which axis v) =
     (if uint axis < num_axes st
      then Some (st\<lparr>axes := (axes st)[unat axis := v]\<rparr>, w) else None)"
| "dispatch st w (SDL_JOYBUTTONDOWN which button state) =
     (if uint button < num_buttons st
      then Some (st\<lparr>buttons := (buttons st)[unat button := state]\<rparr>, w) else None)"
| "dispatch st w (SDL_JOYBUTTONUP which button state) =
     (if uint button < num_buttons st
      then Some (st\<lparr>buttons := (buttons st)[unat button := state]\<rparr>, w) else None)"
| "dispatch st w (SDL_JOYHATMOTION which hat v) =
     (if uint hat < num_hats st
      then Some (st\<lparr>hats := (hats st)[unat hat := v]\<rparr>, w) else None)"
| "dispatch st w (SDL_JOYBALLMOTION which ball xrel yrel) =
     (if uint ball < num_balls st
      then Some (st\<lparr>balls := (balls st)[2 * unat ball := xrel, 2 * unat ball + 1 := yrel]\<rparr>, w)
      else None)"
| "dispatch st w SDL_QUIT =
     Some (st\<lparr>quit := 1\<rparr>, printf (''Recieved interrupt, exiting'' @ [newline]) w)"
| "dispatch st w (SDL_OTHER t) =
     Some (st, fprintf_stderr (''Error: Unhandled event type: '' @ printf_d t @ [newline]) w)"

text \<open>\<^verbatim>\<open>while (SDL_PollEvent(&event)) { something_new = TRUE; switch ... }\<close> over the
  events pending at this tick.\<close>

fun poll_events :: "test_state \<Rightarrow> streams \<Rightarrow> SDL_Event list \<Rightarrow> (test_state \<times> streams) option" where
  "poll_events st w [] = Some (st, w)"
| "poll_events st w (e # es) =
     (case dispatch (st\<lparr>something_new := True\<rparr>) w e of
        None \<Rightarrow> None
      | Some (st', w') \<Rightarrow> poll_events st' w' es)"

subsection \<open>The environment of a run\<close>

text \<open>What \<^verbatim>\<open>SDL_JoystickNumAxes\<close> and its three siblings return for an open joystick
  (negative on error).\<close>

record joystick =
  joy_axes :: int
  joy_buttons :: int
  joy_hats :: int
  joy_balls :: int

text \<open>
  The answers of SDL, curses and the build: the return value of \<^verbatim>\<open>SDL_Init\<close>, the text
  of \<^verbatim>\<open>SDL_GetError\<close>, \<^verbatim>\<open>SDL_NumJoysticks\<close>, \<^verbatim>\<open>SDL_JoystickOpen\<close> (\<open>None\<close> is the
  null pointer), \<^verbatim>\<open>SDL_JoystickName\<close>, the macro \<^verbatim>\<open>SDL_JSTEST_VERSION\<close>, curses'
  \<^verbatim>\<open>COLS\<close>; for test mode, per pass of the outer loop, the events \<^verbatim>\<open>SDL_PollEvent\<close>
  hands out and the key \<^verbatim>\<open>getch\<close> returns; for event mode the results of
  \<^verbatim>\<open>SDL_WaitEvent\<close> in order (\<open>None\<close>: it returned 0).
\<close>

record environment =
  SDL_Init :: int
  SDL_GetError :: string
  SDL_NumJoysticks :: int
  SDL_JoystickOpen :: "int \<Rightarrow> joystick option"
  SDL_JoystickName :: "int \<Rightarrow> string"
  SDL_JSTEST_VERSION :: string
  COLS :: int
  test_ticks :: "(SDL_Event list \<times> int) list"
  wait_events :: "SDL_Event option list"

subsection \<open>Test mode: painting the snapshot\<close>

definition axis_row :: "int \<Rightarrow> nat \<Rightarrow> Sint16 \<Rightarrow> string" where
  "axis_row cols i a =
     (let len = cols - 20
      in ''  '' @ printf_wd 2 (int i) @ '': '' @ printf_wd 6 (sint a) @ ''  '' @
         print_bar (fill_pos (sint a) len) len @ [newline])"

definition axis_rows :: "int \<Rightarrow> test_state \<Rightarrow> string list" where
  "axis_rows cols st = map (\<lambda>i. axis_row cols i (axes st ! i)) [0..<nat (num_axes st)]"

definition button_row :: "nat \<Rightarrow> Uint8 \<Rightarrow> string" where
  "button_row i b =
     ''  '' @ printf_wd 2 (int i) @ '': '' @ printf_d (uint b) @ ''  '' @
     (if b \<noteq> 0 then ''[#]'' else ''[ ]'') @ [newline]"

definition button_rows :: "test_state \<Rightarrow> string list" where
  "button_rows st = map (\<lambda>i. button_row i (buttons st ! i)) [0..<nat (num_buttons st)]"

text \<open>The C truth value of \<^verbatim>\<open>hats[i] & m\<close>.\<close>

definition hat_bit :: "Uint8 \<Rightarrow> Uint8 \<Rightarrow> bool" where
  "hat_bit h m = (h AND m \<noteq> 0)"

text \<open>The thirteen \<^verbatim>\<open>%c\<close> arguments of the hat diagram, in the order of the call:
  up, three cells of the top row, down, three cells of the middle row, left, three
  cells of the bottom row, right.\<close>

definition hat_args :: "Uint8 \<Rightarrow> char list" where
  "hat_args h =
     [if hat_bit h SDL_HAT_UP then CHR ''1'' else CHR ''0'',
      if hat_bit h SDL_HAT_UP \<and> hat_bit h SDL_HAT_LEFT then CHR ''O'' else CHR '' '',
      if hat_bit h SDL_HAT_UP \<and> \<not> hat_bit h (SDL_HAT_LEFT OR SDL_HAT_RIGHT) then CHR ''O'' else CHR '' '',
      if hat_bit h SDL_HAT_UP \<and> hat_bit h SDL_HAT_RIGHT then CHR ''O'' else CHR '' '',
      if hat_bit h SDL_HAT_DOWN then CHR ''1'' else CHR ''0'',
      if \<not> hat_bit h (SDL_HAT_UP OR SDL_HAT_DOWN) \<and> hat_bit h SDL_HAT_LEFT then CHR ''O'' else CHR '' '',
      if \<not> hat_bit h (SDL_HAT_UP OR SDL_HAT_DOWN) \<and> \<not> hat_bit h (SDL_HAT_LEFT OR SDL_HAT_RIGHT)
        then CHR ''O'' else CHR '' '',
      if \<not> hat_bit h (SDL_HAT_UP OR SDL_HAT_DOWN) \<and> hat_bit h SDL_HAT_RIGHT then CHR ''O'' else CHR '' '',
      if hat_bit h SDL_HAT_LEFT then CHR ''1'' else CHR ''0'',
      if hat_bit h SDL_HAT_DOWN \<and> hat_bit h SDL_HAT_LEFT then CHR ''O'' else CHR '' '',
      if hat_bit h SDL_HAT_DOWN \<and> \<not> hat_bit h (SDL_HAT_LEFT OR SDL_HAT_RIGHT) then CHR ''O'' else CHR '' '',
      if hat_bit h SDL_HAT_DOWN \<and> hat_bit h SDL_HAT_RIGHT then CHR ''O'' else CHR '' '',
      if hat_bit h SDL_HAT_RIGHT then CHR ''1'' else CHR ''0'']"

text \<open>The five lines the second \<^verbatim>\<open>printw\<close> of a hat draws from these arguments.\<close>

definition hat_lines :: "char list \<Rightarrow> string list" where
  "hat_lines a =
     [''  +-----+  up:    '' @ [a ! 0],
      ''  |'' @ [a ! 1] @ '' '' @ [a ! 2] @ '' '' @ [a ! 3] @ ''|  down:  '' @ [a ! 4],
      ''  |'' @ [a ! 5] @ '' '' @ [a ! 6] @ '' '' @ [a ! 7] @ ''|  left:  '' @ [a ! 8],
      ''  |'' @ [a ! 9] @ '' '' @ [a ! 10] @ '' '' @ [a ! 11] @ ''|  right: '' @ [a ! 12],
      ''  +-----+'']"

definition unlines :: "string list \<Rightarrow> string" where
  "unlines ls = concat (map (\<lambda>l. l @ [newline]) ls)"

definition hat_diagram :: "Uint8 \<Rightarrow> string" where
  "hat_diagram h = unlines (hat_lines (hat_args h))"

definition hat_row :: "nat \<Rightarrow> Uint8 \<Rightarrow> string" where
  "hat_row i h =
     ''  '' @ printf_wd 2 (int i) @ '': value: '' @ printf_d (uint h) @ [newline] @ hat_diagram h"

definition hat_rows :: "test_state \<Rightarrow> string list" where
  "hat_rows st = map (\<lambda>i. hat_row i (hats st ! i)) [0..<nat (num_hats st)]"

definition ball_row :: "nat \<Rightarrow> Sint16 \<Rightarrow> Sint16 \<Rightarrow> string" where
  "ball_row i x y =
     ''  '' @ printf_wd 2 (int i) @ '': '' @ printf_wd 6 (sint x) @ '' '' @ printf_wd 6 (sint y) @
     [newline]"

definition ball_rows :: "test_state \<Rightarrow> string list" where
  "ball_rows st =
     map (\<lambda>i. ball_row i (balls st ! (2 * i + 0)) (balls st ! (2 * i + 1))) [0..<nat (num_balls st)]"

text \<open>Everything written to the screen between \<^verbatim>\<open>move(0,0)\<close> and \<^verbatim>\<open>refresh()\<close>: one
  frame.\<close>

definition render :: "environment \<Rightarrow> int \<Rightarrow> test_state \<Rightarrow> string" where
  "render env joy_idx st =
     ''Joystick Name:   '' @ [squote] @ SDL_JoystickName env joy_idx @ [squote, newline] @
     ''Joystick Number: '' @ printf_d joy_idx @ [newline] @
     [newline] @
     ''Axes '' @ printf_wd 2 (num_axes st) @ '':'' @ [newline] @
     concat (axis_rows (COLS env) st) @
     [newline] @
     ''Buttons '' @ printf_wd 2 (num_buttons st) @ '':'' @ [newline] @
     concat (button_rows st) @
     [newline] @
     ''Hats '' @ printf_wd 2 (num_hats st) @ '':'' @ [newline] @
     concat (hat_rows st) @
     [newline] @
     ''Balls '' @ printf_wd 2 (num_balls st) @ '': '' @
     concat (ball_rows st) @
     [newline] @
     [newline] @
     ''Press Ctrl-c to exit'' @ [newline]"

subsection \<open>Test mode: the polling loop\<close>

text \<open>\<^verbatim>\<open>if (something_new) { ...; refresh(); something_new = FALSE; }\<close>\<close>

definition render_if_new :: "environment \<Rightarrow> int \<Rightarrow> test_state \<Rightarrow> streams \<Rightarrow> test_state \<times> streams" where
  "render_if_new env joy_idx st w =
     (if something_new st
      then (st\<lparr>something_new := False\<rparr>, w\<lparr>screen := screen w @ [render env joy_idx st]\<rparr>)
      else (st, w))"

text \<open>\<^verbatim>\<open>if ( getch() == 3 ) quit = 1;\<close>\<close>

definition check_key :: "int \<Rightarrow> test_state \<Rightarrow> test_state" where
  "check_key key st = (if key = 3 then st\<lparr>quit := 1\<rparr> else st)"

text \<open>One pass through the body of \<^verbatim>\<open>while(!quit)\<close>: poll, paint, read the key.\<close>

definition test_tick ::
  "environment \<Rightarrow> int \<Rightarrow> test_state \<Rightarrow> streams \<Rightarrow> SDL_Event list \<times> int \<Rightarrow> (test_state \<times> streams) option" where
  "test_tick env joy_idx st w t =
     (case poll_events st w (fst t) of
        None \<Rightarrow> None
      | Some (st1, w1) \<Rightarrow>
          (case render_if_new env joy_idx st1 w1 of
             (st2, w2) \<Rightarrow> Some (check_key (snd t) st2, w2)))"

datatype loop_end = Left_loop test_state streams | Assert_failed | Still_polling test_state streams

text \<open>\<^verbatim>\<open>while(!quit) { ... }\<close> over the passes the environment provides.\<close>

fun test_loop ::
  "environment \<Rightarrow> int \<Rightarrow> test_state \<Rightarrow> streams \<Rightarrow> (SDL_Event list \<times> int) list \<Rightarrow> loop_end" where
  "test_loop env joy_idx st w [] = (if quit st \<noteq> 0 then Left_loop st w else Still_polling st w)"
| "test_loop env joy_idx st w (t # ts) =
     (if quit st \<noteq> 0 then Left_loop st w
      else case test_tick env joy_idx st w t of
             None \<Rightarrow> Assert_failed
           | Some (st', w') \<Rightarrow> test_loop env joy_idx st' w' ts)"

subsection \<open>\<^verbatim>\<open>print_help\<close> and \<^verbatim>\<open>print_joystick_info\<close>\<close>

definition print_help :: "string \<Rightarrow> string" where
  "print_help prg =
     ''Usage: '' @ prg @ '' [OPTION]'' @ [newline] @
     ''List available joysticks or test a joystick.'' @ [newline] @
     ''This programm uses SDL for doing its test instead of using the raw'' @ [newline] @
     ''/dev/input/jsX interface'' @ [newline] @
     [newline] @
     ''Options:'' @ [newline] @
     ''  --help             Print this help'' @ [newline] @
     ''  --version          Print version number and exit'' @ [newline] @
     ''  --list             Search for available joysticks and list their properties'' @ [newline] @
     ''  --test  JOYNUM     Display a graphical representation of the current joystick state'' @ [newline] @
     ''  --event JOYNUM     Display the events that are received from the joystick'' @ [newline] @
     [newline] @
     ''Examples:'' @ [newline] @
     ''  '' @ prg @ '' --list'' @ [newline] @
     ''  '' @ prg @ '' --test 1'' @ [newline]"

definition print_joystick_info :: "environment \<Rightarrow> int \<Rightarrow> joystick \<Rightarrow> string" where
  "print_joystick_info env joy_idx joy =
     ''Joystick Name:     '' @ [squote] @ SDL_JoystickName env joy_idx @ [squote, newline] @
     ''Joystick Number:   '' @ printf_wd 2 joy_idx @ [newline] @
     ''Number of Axes:    '' @ printf_wd 2 (joy_axes joy) @ [newline] @
     ''Number of Buttons: '' @ printf_wd 2 (joy_buttons joy) @ [newline] @
     ''Number of Hats:    '' @ printf_wd 2 (joy_hats joy) @ [newline] @
     ''Number of Balls:   '' @ printf_wd 2 (joy_balls joy) @ [newline] @
     [newline]"

subsection \<open>The modes of \<^verbatim>\<open>main\<close>\<close>

text \<open>Leaving the chain of branches: \<^verbatim>\<open>return EXIT_SUCCESS;\<close> at the end of
  \<^verbatim>\<open>main\<close>.\<close>

definition return_main :: "streams \<Rightarrow> result" where
  "return_main w = Exited EXIT_SUCCESS w"

definition unable_to_open :: "int \<Rightarrow> string" where
  "unable_to_open joy_idx = ''Unable to open joystick '' @ printf_d joy_idx @ [newline]"

definition not_a_number :: "string \<Rightarrow> string" where
  "not_a_number arg =
     ''Error: JOYSTICKNUM argument must be a number, but was '' @ [squote] @ arg @ [squote, newline]"

definition unable_to_init :: "environment \<Rightarrow> string" where
  "unable_to_init env = ''Unable to init SDL: '' @ SDL_GetError env @ [newline]"

text \<open>\<^verbatim>\<open>--list\<close>: one pass of the loop over the joystick indices, and the branch.\<close>

definition list_joystick :: "environment \<Rightarrow> streams \<Rightarrow> int \<Rightarrow> streams" where
  "list_joystick env w joy_idx =
     (case SDL_JoystickOpen env joy_idx of
        None \<Rightarrow> fprintf_stderr (unable_to_open joy_idx) w
      | Some joy \<Rightarrow> printf (print_joystick_info env joy_idx joy) w)"

definition list_mode :: "environment \<Rightarrow> streams \<Rightarrow> result" where
  "list_mode env w =
     (let num_joysticks = SDL_NumJoysticks env
      in if num_joysticks = 0
         then return_main (printf (''No joysticks were found'' @ [newline]) w)
         else return_main
                (foldl (list_joystick env)
                   (printf (''Found '' @ printf_d num_joysticks @ '' joystick(s)'' @ [newline, newline]) w)
                   [0..num_joysticks - 1]))"

text \<open>\<^verbatim>\<open>--test\<close>: the branch up to and after the polling loop.\<close>

definition test_mode :: "environment \<Rightarrow> string \<Rightarrow> streams \<Rightarrow> result" where
  "test_mode env arg w =
     (case str2int arg of
        None \<Rightarrow> Exited 1 (fprintf_stderr (not_a_number arg) w)
      | Some joy_idx \<Rightarrow>
          (case SDL_JoystickOpen env joy_idx of
             None \<Rightarrow> return_main (fprintf_stderr (unable_to_open joy_idx) w)
           | Some joy \<Rightarrow>
               if joy_axes joy < 0 then
                 Exited EXIT_FAILURE
                   (fprintf_stderr (''Unable to get SDL axes count: '' @ SDL_GetError env @ [newline]) w)
               else if joy_buttons joy < 0 then
                 Exited EXIT_FAILURE
                   (fprintf_stderr (''Unable to get SDL buttons count: '' @ SDL_GetError env @ [newline]) w)
               else if joy_hats joy < 0 then
                 Exited EXIT_FAILURE
                   (fprintf_stderr (''Unable to get SDL hats count: '' @ SDL_GetError env @ [newline]) w)
               else if joy_balls joy < 0 then
                 Exited EXIT_FAILURE
                   (fprintf_stderr (''Unable to get SDL balls count: '' @ SDL_GetError env @ [newline]) w)
               else
                 (case test_loop env joy_idx
                         (init_state (joy_axes joy) (joy_buttons joy) (joy_hats joy) (joy_balls joy))
                         w (test_ticks env) of
                    Left_loop st w' \<Rightarrow> return_main w'
                  | Assert_failed \<Rightarrow> Aborted
                  | Still_polling st w' \<Rightarrow> Waiting w')))"

text \<open>\<^verbatim>\<open>--event\<close>: the line printed for one event, the loop
  \<^verbatim>\<open>while(!quit && SDL_WaitEvent(&event))\<close>, and the branch.\<close>

fun log_event :: "SDL_Event \<Rightarrow> streams \<Rightarrow> streams" where
  "log_event (SDL_JOYAXISMOTION which axis v) w =
     printf (''SDL_JOYAXISMOTION: joystick: '' @ printf_d which @ '' axis: '' @ printf_d (uint axis) @
             '' value: '' @ printf_d (sint v) @ [newline]) w"
| "log_event (SDL_JOYBUTTONDOWN which button state) w =
     printf (''SDL_JOYBUTTONDOWN: joystick: '' @ printf_d which @ '' button: '' @ printf_d (uint button) @
             '' state: '' @ printf_d (uint state) @ [newline]) w"
| "log_event (SDL_JOYBUTTONUP which button state) w =
     printf (''SDL_JOYBUTTONUP: joystick: '' @ printf_d which @ '' button: '' @ printf_d (uint button) @
             '' state: '' @ printf_d (uint state) @ [newline]) w"
| "log_event (SDL_JOYHATMOTION which hat v) w =
     printf (''SDL_JOYHATMOTION: joystick: '' @ printf_d which @ '' hat: '' @ printf_d (uint hat) @
             '' value: '' @ printf_d (uint v) @ [newline]) w"
| "log_event (SDL_JOYBALLMOTION which ball xrel yrel) w =
     printf (''SDL_JOYBALLMOTION: joystick: '' @ printf_d which @ '' ball: '' @ printf_d (uint ball) @
             '' x: '' @ printf_d (sint xrel) @ '' y: '' @ printf_d (sint yrel) @ [newline]) w"
| "log_event SDL_QUIT w = printf (''Recieved interrupt, exiting'' @ [newline]) w"
| "log_event (SDL_OTHER t) w =
     fprintf_stderr (''Error: Unhandled event type: '' @ printf_d t @ [newline]) w"

datatype wait_end = Left_wait streams | Still_waiting streams

fun event_loop :: "streams \<Rightarrow> SDL_Event option list \<Rightarrow> wait_end" where
  "event_loop w [] = Still_waiting w"
| "event_loop w (None # es) = Left_wait w"
| "event_loop w (Some e # es) =
     (if e = SDL_QUIT then Left_wait (log_event e w) else event_loop (log_event e w) es)"

definition event_mode :: "environment \<Rightarrow> string \<Rightarrow> streams \<Rightarrow> result" where
  "event_mode env arg w =
     (case str2int arg of
        None \<Rightarrow> Exited 1 (fprintf_stderr (not_a_number arg) w)
      | Some joy_idx \<Rightarrow>
          (case SDL_JoystickOpen env joy_idx of
             None \<Rightarrow>
               return_main
                 (fprintf_stderr (unable_to_init env) (fprintf_stderr (unable_to_open joy_idx) w))
           | Some joy \<Rightarrow>
               (case event_loop
                       (printf (''Entering joystick test loop, press Ctrl-c to exit'' @ [newline])
                          (printf (print_joystick_info env joy_idx joy) w))
                       (wait_events env) of
                  Left_wait w' \<Rightarrow> return_main (fprintf_stderr (unable_to_init env) w')
                | Still_waiting w' \<Rightarrow> Waiting w')))"

definition unknown_arguments :: "string \<Rightarrow> string" where
  "unknown_arguments prg =
     prg @ '': unknown arguments'' @ [newline] @
     ''Try '' @ [squote] @ prg @ '' --help'' @ [squote] @ '' for more informations'' @ [newline]"

subsection \<open>\<^verbatim>\<open>main\<close>\<close>

text \<open>
  \<open>argv\<close> is the argument vector, the program name first; \<open>argc\<close> is its length.
  The help branch is an \<^verbatim>\<open>if\<close> of its own; the chain \<^verbatim>\<open>if ... else if ... else\<close>
  that starts at \<^verbatim>\<open>--version\<close> runs after it in every case.
\<close>

definition main :: "string list \<Rightarrow> environment \<Rightarrow> result" where
  "main argv env =
     (let argc = int (length argv) in
      if argc = 1 then Exited 1 (printf (print_help (argv ! 0)) no_output)
      else if SDL_Init env < 0 then Exited 1 (fprintf_stderr (unable_to_init env) no_output)
      else
        let w = (if argc = 2 \<and> (argv ! 1 = ''--help'' \<or> argv ! 1 = ''-h'')
                 then printf (print_help (argv ! 0)) no_output else no_output)
        in if argc = 2 \<and> argv ! 1 = ''--version''
           then Exited EXIT_SUCCESS (printf (''sdl-jstest '' @ SDL_JSTEST_VERSION env @ [newline]) w)
           else if argc = 2 \<and> (argv ! 1 = ''--list'' \<or> argv ! 1 = ''-l'')
           then list_mode env w
           else if argc = 3 \<and> (argv ! 1 = ''--test'' \<or> argv ! 1 = ''-t'')
           then test_mode env (argv ! 2) w
           else if argc = 3 \<and> (argv ! 1 = ''--event'' \<or> argv ! 1 = ''-e'')
           then event_mode env (argv ! 2) w
           else return_main (fprintf_stderr (unknown_arguments (argv ! 0)) w))"

subsection \<open>Two environments and the reading of the specification's words\<close>

text \<open>A machine on which SDL starts and finds no joystick.\<close>

definition no_joysticks :: environment where
  "no_joysticks =
     \<lparr>SDL_Init = 0, SDL_GetError = ''There are 0 joysticks available'', SDL_NumJoysticks = 0,
      SDL_JoystickOpen = (\<lambda>joy_idx. None), SDL_JoystickName = (\<lambda>joy_idx. []),
      SDL_JSTEST_VERSION = ''0.2.1'', COLS = 80, test_ticks = [], wait_events = []\<rparr>"


text \<open>
  A machine with one gamepad (two axes, one button, one hat, one ball) on a terminal of
  80 columns. In test mode nothing is pending in the first two passes; in the third
  the quit event arrives followed by two joystick events.
\<close>

definition one_gamepad :: environment where
  "one_gamepad =
     \<lparr>SDL_Init = 0, SDL_GetError = [], SDL_NumJoysticks = 1,
      SDL_JoystickOpen =
        (\<lambda>joy_idx. if joy_idx = 0
                   then Some \<lparr>joy_axes = 2, joy_buttons = 1, joy_hats = 1, joy_balls = 1\<rparr>
                   else None),
      SDL_JoystickName = (\<lambda>joy_idx. ''Gamepad''),
      SDL_JSTEST_VERSION = ''0.2.1'', COLS = 80,
      test_ticks =
        [([], - 1), ([], - 1),
         ([SDL_QUIT, SDL_JOYAXISMOTION 0 1 5, SDL_JOYHATMOTION 0 0 9], - 1),
         ([SDL_JOYAXISMOTION 0 0 7], - 1)],
      wait_events = [Some (SDL_JOYAXISMOTION 0 1 5), Some SDL_QUIT]\<rparr>"

text \<open>
  The specification's "parses as a base-10 integer": optional white space, an
  optional sign, then one or more decimal digits and nothing else.
\<close>

definition base10_integer_text :: "string \<Rightarrow> bool" where
  "base10_integer_text str =
     (let s1 = dropWhile isspace str;
          s2 = (if s1 \<noteq> [] \<and> (hd s1 = CHR ''-'' \<or> hd s1 = CHR ''+'') then tl s1 else s1)
      in s2 \<noteq> [] \<and> list_all isdigit s2)"

text \<open>The component an event addresses lies within the count the joystick declared
  (events without a component address nothing).\<close>

fun index_within :: "test_state \<Rightarrow> SDL_Event \<Rightarrow> bool" where
  "index_within st (SDL_JOYAXISMOTION which axis v) = (uint axis < num_axes st)"
| "index_within st (SDL_JOYBUTTONDOWN which button state) = (uint button < num_buttons st)"
| "index_within st (SDL_JOYBUTTONUP which button state) = (uint button < num_buttons st)"
| "index_within st (SDL_JOYHATMOTION which hat v) = (uint hat < num_hats st)"
| "index_within st (SDL_JOYBALLMOTION which ball xrel yrel) = (uint ball < num_balls st)"
| "index_within st SDL_QUIT = True"
| "index_within st (SDL_OTHER t) = True"

section \<open>Properties\<close>

subsection \<open>The bar position of an axis\<close>

lemma c_div_nonneg: "0 \<le> a \<Longrightarrow> 0 < b \<Longrightarrow> c_div a b = a div b"
  by (cases "a = 0") (simp_all add: c_div_def sgn_if)

lemma int32_fits: "int_fits x \<Longrightarrow> int32 x = x"
  by (simp add: int32_def int_fits_def INT_MIN_def INT_MAX_def)

text \<open>Up to a bar of 32770 cells the product is an \<^verbatim>\<open>int\<close> of 32 bits: nothing wraps.\<close>

lemma fill_pos_product_fits:
  assumes "- 32768 \<le> v" "v \<le> 32767" "1 < w" "w \<le> 32770"
  shows "int_fits ((v + 32767) * (w - 1))"
proof -
  have a: "- 1 \<le> v + 32767" "v + 32767 \<le> 65534" using assms by simp_all
  have b: "0 < w - 1" "w - 1 \<le> 32769" using assms by simp_all
  have "(v + 32767) * (w - 1) \<le> 65534 * (w - 1)"
    using a b by (intro mult_right_mono) simp_all
  then have hi: "(v + 32767) * (w - 1) \<le> 2147483646" using b by simp
  have "- 1 * (w - 1) \<le> (v + 32767) * (w - 1)"
    using a b by (intro mult_right_mono) simp_all
  then have lo: "- 32769 \<le> (v + 32767) * (w - 1)" using b by simp
  show ?thesis using lo hi by (simp add: int_fits_def INT_MIN_def INT_MAX_def)
qed

lemma quotient_lowest: "1 < w \<Longrightarrow> w \<le> 65534 \<Longrightarrow> c_div ((- 32768 + 32767) * (w - 1)) 65534 = 0"
proof -
  assume w: "1 < w" "w \<le> 65534"
  have "\<bar>- (w - 1)\<bar> div 65534 = 0" using w by simp
  then show ?thesis by (simp add: c_div_def)
qed

lemma quotient_highest: "1 < w \<Longrightarrow> c_div ((32767 + 32767) * (w - 1)) 65534 = w - 1"
  by (simp add: c_div_nonneg)

lemma quotient_middle:
  assumes "- 32767 \<le> v" "v \<le> 32767" "1 < w"
  shows "0 \<le> c_div ((v + 32767) * (w - 1)) 65534 \<and> c_div ((v + 32767) * (w - 1)) 65534 < w"
proof -
  have w1: "0 < w - 1" using assms by simp
  have p0: "0 \<le> (v + 32767) * (w - 1)" using assms by simp
  have "(v + 32767) * (w - 1) \<le> 65534 * (w - 1)"
    using assms w1 by (intro mult_right_mono) simp_all
  then have "(v + 32767) * (w - 1) div 65534 \<le> (65534 * (w - 1)) div 65534"
    by (rule zdiv_mono1) simp
  then have up: "(v + 32767) * (w - 1) div 65534 \<le> w - 1" by simp
  have eq: "c_div ((v + 32767) * (w - 1)) 65534 = (v + 32767) * (w - 1) div 65534"
    using p0 by (simp add: c_div_nonneg)
  have "0 \<le> (v + 32767) * (w - 1) div 65534" using p0 by (simp add: pos_imp_zdiv_nonneg_iff)
  then show ?thesis using up eq by simp
qed

lemma quotient_inside:
  assumes "- 32768 \<le> v" and "v \<le> 32767" and "1 < w" and "w \<le> 65534"
  shows "0 \<le> c_div ((v + 32767) * (w - 1)) 65534 \<and> c_div ((v + 32767) * (w - 1)) 65534 < w"
proof (cases "v = - 32768")
  case True
  then show ?thesis using assms quotient_lowest [of w] by simp
next
  case False
  then have "- 32767 \<le> v" using assms by simp
  then show ?thesis using assms by (intro quotient_middle)
qed

text \<open>Up to that width the 32-bit expression computes the truncated quotient of the
  mathematical product.\<close>

lemma fill_pos_exact:
  assumes "- 32768 \<le> v" and "v \<le> 32767" and "1 < w" and "w \<le> 32770"
  shows "fill_pos v w = c_div ((v + 32767) * (w - 1)) 65534"
proof -
  have s: "int32 (v + 32767) = v + 32767"
    using assms by (intro int32_fits) (simp add: int_fits_def INT_MIN_def INT_MAX_def)
  have l: "int32 (w - 1) = w - 1"
    using assms by (intro int32_fits) (simp add: int_fits_def INT_MIN_def INT_MAX_def)
  have p: "int32 ((v + 32767) * (w - 1)) = (v + 32767) * (w - 1)"
    using assms by (intro int32_fits fill_pos_product_fits)
  have "0 \<le> c_div ((v + 32767) * (w - 1)) 65534 \<and> c_div ((v + 32767) * (w - 1)) 65534 < w"
    using assms by (intro quotient_inside) simp_all
  then have q: "int32 (c_div ((v + 32767) * (w - 1)) 65534) = c_div ((v + 32767) * (w - 1)) 65534"
    using assms by (intro int32_fits) (simp add: int_fits_def INT_MIN_def INT_MAX_def)
  show ?thesis by (simp add: fill_pos_def s l p q)
qed

lemma fill_pos_inside:
  assumes "- 32768 \<le> v" and "v \<le> 32767" and "1 < w" and "w \<le> 32770"
  shows "0 \<le> fill_pos v w \<and> fill_pos v w < w"
  using assms quotient_inside [of v w] by (simp add: fill_pos_exact)

text \<open>
  Claim C1, as the code has it. For every axis value \<open>v\<close> in \<open>[-32768, 32767]\<close> and
  every bar width \<open>w\<close> with \<open>1 < w \<le> 32770\<close>, the position the 32-bit expression
  \<open>(v + 32767) * (w - 1) / 65534\<close> computes is the truncated quotient of the
  mathematical product and lies in \<open>[0, w)\<close>; the lowest value gives 0 and the highest
  gives \<open>w - 1\<close>.
\<close>

theorem fill_pos_within_bar:
  assumes "- 32768 \<le> v" and "v \<le> 32767" and "1 < w" and "w \<le> 32770"
  shows "0 \<le> fill_pos v w \<and> fill_pos v w < w \<and>
         fill_pos (- 32768) w = 0 \<and> fill_pos 32767 w = w - 1 \<and>
         fill_pos v w = c_div ((v + 32767) * (w - 1)) 65534 \<and>
         int_fits ((v + 32767) * (w - 1))"
proof -
  have lowest: "fill_pos (- 32768) w = 0"
    using assms quotient_lowest [of w] by (simp add: fill_pos_exact)
  have highest: "fill_pos 32767 w = w - 1"
    using assms quotient_highest [of w] by (simp add: fill_pos_exact)
  show ?thesis
    using assms lowest highest fill_pos_inside [of v w] fill_pos_exact [of v w]
      fill_pos_product_fits [of v w]
    by simp
qed

text \<open>The theorem at \<open>v = 0\<close> on a bar of 60 cells (a terminal of 80 columns).\<close>

theorem fill_pos_within_bar_witness:
  "0 \<le> fill_pos 0 60 \<and> fill_pos 0 60 < 60 \<and> fill_pos (- 32768) 60 = 0 \<and>
   fill_pos 32767 60 = 59 \<and> fill_pos 0 60 = c_div ((0 + 32767) * (60 - 1)) 65534 \<and>
   int_fits ((0 + 32767) * (60 - 1))"
  using fill_pos_within_bar [of 0 60] by simp

text \<open>
  Claim C1 as stated, for every width \<open>w > 1\<close>, fails from a bar of 32771 cells on:
  there the highest axis value gives the product \<open>65534 * 32770\<close>, which is beyond the
  32-bit \<^verbatim>\<open>int\<close> and wraps to a negative number, and the position is \<open>-32768\<close>. (Where
  nothing wraps the claim fails as well: on a bar of 65535 cells the lowest axis value
  gives the product \<open>-65534\<close> and the position \<open>-1\<close>.)
\<close>

theorem fill_pos_wide_bar_counterexample:
  "- 32768 \<le> (32767 :: int) \<and> (32767 :: int) \<le> 32767 \<and> (1 :: int) < 32771 \<and>
   fill_pos 32767 32771 = - 32768 \<and> \<not> 0 \<le> fill_pos 32767 32771 \<and>
   fill_pos 32767 32771 \<noteq> 32771 - 1 \<and>
   fill_pos (- 32768) 65535 = - 1"
  by (simp add: fill_pos_def int32_def c_div_def)

text \<open>What the bar looks like: with the position inside the bar, one \<open>#\<close> at that
  cell; with a negative position, none. For every axis value the position is inside
  the bar on a terminal of 22 to 32790 columns.\<close>

lemma print_bar_from_map:
  "print_bar_from i pos len = map (\<lambda>i. if i = pos then CHR ''#'' else CHR '' '') [i..len - 1]"
proof (induction i pos len rule: print_bar_from.induct)
  case (1 i pos len)
  show ?case
  proof (cases "i < len")
    case True
    then have "[i..len - 1] = i # [i + 1..len - 1]" by (intro upto_rec1) simp
    then show ?thesis using True "1.IH" by (subst print_bar_from.simps) simp
  next
    case False
    then show ?thesis by (subst print_bar_from.simps) simp
  qed
qed

lemma map_blank:
  "\<forall>i\<in>set xs. i \<noteq> pos \<Longrightarrow>
     map (\<lambda>i. if i = pos then CHR ''#'' else CHR '' '') xs = replicate (length xs) CHR '' ''"
  by (induction xs) simp_all

lemma print_bar_single_mark:
  assumes "0 \<le> pos" and "pos < len"
  shows "print_bar pos len =
           CHR ''['' # replicate (nat pos) CHR '' '' @ CHR ''#'' #
           replicate (nat (len - 1 - pos)) CHR '' '' @ '']''"
proof -
  have split: "[0..len - 1] = [0..pos - 1] @ pos # [pos + 1..len - 1]"
    using assms by (intro upto_split3) simp_all
  have left: "map (\<lambda>i. if i = pos then CHR ''#'' else CHR '' '') [0..pos - 1] =
                replicate (nat pos) CHR '' ''"
    using assms map_blank [of "[0..pos - 1]" pos] by simp
  have right: "map (\<lambda>i. if i = pos then CHR ''#'' else CHR '' '') [pos + 1..len - 1] =
                 replicate (nat (len - 1 - pos)) CHR '' ''"
    using assms map_blank [of "[pos + 1..len - 1]" pos] by simp
  show ?thesis by (simp add: print_bar_def print_bar_from_map split left right)
qed

lemma print_bar_no_mark: "pos < 0 \<Longrightarrow> CHR ''#'' \<notin> set (print_bar pos len)"
  by (auto simp: print_bar_def print_bar_from_map)

lemma sint16_range: "- 32768 \<le> sint (a :: Sint16) \<and> sint a \<le> 32767"
  using sint_ge [of a] sint_lt [of a] by simp

lemma axis_bar_single_mark:
  assumes "21 < cols" and "cols \<le> 32790"
  shows "print_bar (fill_pos (sint (a :: Sint16)) (cols - 20)) (cols - 20) =
           CHR ''['' # replicate (nat (fill_pos (sint a) (cols - 20))) CHR '' '' @ CHR ''#'' #
           replicate (nat (cols - 20 - 1 - fill_pos (sint a) (cols - 20))) CHR '' '' @ '']''"
proof -
  have "0 \<le> fill_pos (sint a) (cols - 20) \<and> fill_pos (sint a) (cols - 20) < cols - 20"
    using assms sint16_range [of a] by (intro fill_pos_inside) simp_all
  then show ?thesis by (intro print_bar_single_mark) simp_all
qed

text \<open>Two rows as they are painted on a terminal of 80 columns.\<close>

lemma axis_row_example:
  "axis_row 80 1 5 =
     ''   1:      5  ['' @ replicate 29 CHR '' '' @ ''#'' @ replicate 30 CHR '' '' @ '']'' @ [newline]"
  by code_simp

lemma button_row_example: "button_row 0 1 = ''   0: 1  [#]'' @ [newline]"
  by code_simp

subsection \<open>The index argument\<close>

lemmas strtol_eval = str2int_def strtol_def isspace_def isdigit_def decimal_value_def
  digit_value_def LONG_MAX_def LONG_MIN_def INT_MAX_def INT_MIN_def ERANGE_def

lemma str2int_rejects:
  "str2int ''abc'' = None" "str2int ''99999999999999'' = None" "str2int ''12x'' = None"
  by (simp_all add: strtol_eval)

lemma str2int_accepts:
  "str2int ''0'' = Some 0" "str2int ''-1'' = Some (- 1)" "str2int ''42'' = Some 42"
  by (simp_all add: strtol_eval)

text \<open>What is accepted is within \<^verbatim>\<open>int\<close>, and is the text of a decimal integer
  unless it is the empty text.\<close>

lemma str2int_accepts_only:
  "str2int str = Some v \<Longrightarrow> int_fits v \<and> (str = [] \<or> base10_integer_text str)"
  by (auto simp: str2int_def strtol_def base10_integer_text_def int_fits_def Let_def list_all_iff
           dropWhile_eq_Nil_conv takeWhile_eq_Nil_iff
           split: if_splits)

text \<open>\<^verbatim>\<open>%d\<close> and \<^verbatim>\<open>str2int\<close> agree: the text \<^verbatim>\<open>printf\<close> writes for an \<^verbatim>\<open>int\<close> is
  read back by \<^verbatim>\<open>str2int\<close> as that value.\<close>

lemma digit_value_digit_char: "d < 10 \<Longrightarrow> digit_value (digit_char d) = int d"
proof -
  assume "d < 10"
  then have "d \<in> {0, 1, 2, 3, 4, 5, 6, 7, 8, 9}" by auto
  then show ?thesis by (auto simp: digit_value_def digit_char_def)
qed

lemma isdigit_digit_char: "d < 10 \<Longrightarrow> isdigit (digit_char d)"
proof -
  assume "d < 10"
  then have "d \<in> {0, 1, 2, 3, 4, 5, 6, 7, 8, 9}" by auto
  then show ?thesis by (auto simp: isdigit_def digit_char_def)
qed

lemma decimal_value_snoc:
  "decimal_value (ds @ [c]) = decimal_value ds * 10 + digit_value c"
  by (simp add: decimal_value_def)

lemma decimal_value_digits_of: "decimal_value (digits_of n) = int n"
proof (induction n rule: digits_of.induct)
  case (1 n)
  show ?case
  proof (cases "n < 10")
    case True
    then have "digits_of n = [digit_char n]" by (subst digits_of.simps) simp
    then show ?thesis using True by (simp add: digit_value_digit_char decimal_value_def)
  next
    case False
    have "decimal_value (digits_of n) =
            decimal_value (digits_of (n div 10)) * 10 + digit_value (digit_char (n mod 10))"
      using False decimal_value_snoc [of "digits_of (n div 10)" "digit_char (n mod 10)"]
      by (subst digits_of.simps) simp
    also have "\<dots> = int (n div 10) * 10 + int (n mod 10)"
      using False "1.IH" by (simp add: digit_value_digit_char)
    also have "\<dots> = int n" by presburger
    finally show ?thesis .
  qed
qed

lemma digits_of_all_digits: "list_all isdigit (digits_of n)"
proof (induction n rule: digits_of.induct)
  case (1 n)
  show ?case
  proof (cases "n < 10")
    case True
    then show ?thesis by (subst digits_of.simps) (simp add: isdigit_digit_char)
  next
    case False
    then show ?thesis using "1.IH" by (subst digits_of.simps) (simp add: isdigit_digit_char)
  qed
qed

lemma digits_of_not_Nil: "digits_of n \<noteq> []"
  by (subst digits_of.simps) simp

lemma strtol_digits:
  assumes "ds \<noteq> []" and "list_all isdigit ds" and "decimal_value ds \<le> LONG_MAX"
    and "0 \<le> decimal_value ds"
  shows "strtol ds = (decimal_value ds, [], 0)"
proof -
  have tw: "takeWhile isdigit ds = ds" using assms(2) by (simp add: takeWhile_eq_all_conv list_all_iff)
  have dw: "dropWhile isdigit ds = []" using assms(2) by (simp add: list_all_iff)
  have hd_digit: "isdigit (hd ds)" using assms(1,2) by (cases ds) simp_all
  have nsp: "\<not> isspace (hd ds)" "hd ds \<noteq> CHR ''-''" "hd ds \<noteq> CHR ''+''"
    using hd_digit by (auto simp: isdigit_def isspace_def)
  have dws: "dropWhile isspace ds = ds" using assms(1) nsp by (cases ds) simp_all
  have lo: "\<not> decimal_value ds < LONG_MIN" using assms(4) by (simp add: LONG_MIN_def)
  show ?thesis
    unfolding strtol_def Let_def dws
    using assms(1,3) nsp lo by (simp add: tw dw)
qed


lemma strtol_minus_digits:
  assumes "ds \<noteq> []" and "list_all isdigit ds" and "LONG_MIN \<le> - decimal_value ds"
    and "0 \<le> decimal_value ds"
  shows "strtol (CHR ''-'' # ds) = (- decimal_value ds, [], 0)"
proof -
  have tw: "takeWhile isdigit ds = ds" using assms(2) by (simp add: takeWhile_eq_all_conv list_all_iff)
  have dw: "dropWhile isdigit ds = []" using assms(2) by (simp add: list_all_iff)
  have sp: "\<not> isspace CHR ''-''" by (simp add: isspace_def)
  have hi: "\<not> - decimal_value ds > LONG_MAX" using assms(4) by (simp add: LONG_MAX_def)
  have lo: "\<not> - decimal_value ds < LONG_MIN" using assms(3) by simp
  show ?thesis
    using assms(1) hi lo sp by (simp add: strtol_def tw dw)
qed


lemma str2int_printf_d:
  assumes "int_fits n"
  shows "str2int (printf_d n) = Some n"
proof -
  define ds where "ds = digits_of (nat \<bar>n\<bar>)"
  have ne: "ds \<noteq> []" by (simp add: ds_def digits_of_not_Nil)
  have all: "list_all isdigit ds" by (simp add: ds_def digits_of_all_digits)
  have val: "decimal_value ds = \<bar>n\<bar>" by (simp add: ds_def decimal_value_digits_of)
  have rng: "- 2147483648 \<le> n" "n \<le> 2147483647"
    using assms by (simp_all add: int_fits_def INT_MIN_def INT_MAX_def)
  show ?thesis
  proof (cases "n < 0")
    case True
    have p: "printf_d n = CHR ''-'' # ds" using True by (simp add: printf_d_def ds_def)
    have dv: "decimal_value ds = - n" using val True by simp
    have a: "LONG_MIN \<le> - decimal_value ds" using rng by (simp add: dv LONG_MIN_def)
    have b: "0 \<le> decimal_value ds" using True by (simp add: dv)
    have "strtol (CHR ''-'' # ds) = (- decimal_value ds, [], 0)"
      using ne all a b by (rule strtol_minus_digits)
    then have "strtol (printf_d n) = (n, [], 0)" by (simp add: p dv)
    then show ?thesis using rng by (simp add: str2int_def INT_MIN_def INT_MAX_def)
  next
    case False
    have p: "printf_d n = ds" using False by (simp add: printf_d_def ds_def)
    have dv: "decimal_value ds = n" using val False by simp
    have a: "decimal_value ds \<le> LONG_MAX" using rng by (simp add: dv LONG_MAX_def)
    have b: "0 \<le> decimal_value ds" using False by (simp add: dv)
    have "strtol ds = (decimal_value ds, [], 0)"
      using ne all a b by (rule strtol_digits)
    then have "strtol (printf_d n) = (n, [], 0)" by (simp add: p dv)
    then show ?thesis using rng by (simp add: str2int_def INT_MIN_def INT_MAX_def)
  qed
qed

text \<open>So the decimal text shown for an axis tells its value.\<close>

lemma printf_d_inj: "int_fits a \<Longrightarrow> int_fits b \<Longrightarrow> printf_d a = printf_d b \<Longrightarrow> a = b"
proof -
  assume a: "int_fits a" and b: "int_fits b" and e: "printf_d a = printf_d b"
  have "Some a = str2int (printf_d a)" using a by (simp add: str2int_printf_d)
  also have "\<dots> = str2int (printf_d b)" by (simp add: e)
  also have "\<dots> = Some b" using b by (simp add: str2int_printf_d)
  finally show ?thesis by simp
qed

lemma shown_axis_value:
  "printf_d (sint (a :: Sint16)) = printf_d (sint (b :: Sint16)) \<Longrightarrow> a = b"
proof -
  assume e: "printf_d (sint a) = printf_d (sint b)"
  have "int_fits (sint a)" "int_fits (sint b)"
    using sint16_range [of a] sint16_range [of b] by (simp_all add: int_fits_def INT_MIN_def INT_MAX_def)
  then have "sint a = sint b" using e by (rule printf_d_inj)
  then show ?thesis by (rule signed_word_eqI)
qed

lemma printf_d_digit: "printf_d 0 = ''0''" "printf_d 7 = ''7''"
  by (simp_all add: printf_d_def digits_of.simps digit_char_def)

text \<open>
  Claim C6 at the empty text. \<^verbatim>\<open>strtol\<close> converts nothing and leaves \<^verbatim>\<open>endptr\<close> at
  the terminating NUL, so \<^verbatim>\<open>str2int\<close> returns 1 with the value 0 although the text is
  not a decimal integer; \<^verbatim>\<open>--test ""\<close> then goes on to open joystick 0 instead of
  reporting the argument.
\<close>

theorem str2int_accepts_empty_text:
  "str2int [] = Some 0 \<and> \<not> base10_integer_text [] \<and>
   main [''sdl-jstest'', ''--test'', []] no_joysticks =
     Exited 0 \<lparr>out = [], err = ''Unable to open joystick 0'' @ [newline], screen = []\<rparr>"
  by (simp add: strtol_eval base10_integer_text_def main_def test_mode_def no_joysticks_def
      return_main_def fprintf_stderr_def no_output_def unable_to_open_def printf_d_digit
      EXIT_SUCCESS_def)

subsection \<open>Exit codes of \<^verbatim>\<open>main\<close>\<close>

text \<open>An index that does not parse ends both modes with \<^verbatim>\<open>exit(1)\<close>.\<close>

lemma index_parse_failure_exits_1:
  assumes "0 \<le> SDL_Init env" and "str2int arg = None"
    and "a = ''--test'' \<or> a = ''-t'' \<or> a = ''--event'' \<or> a = ''-e''"
  shows "main [prg, a, arg] env = Exited 1 \<lparr>out = [], err = not_a_number arg, screen = []\<rparr>"
  using assms
  by (auto simp: main_def test_mode_def event_mode_def fprintf_stderr_def no_output_def)

text \<open>A joystick that does not open ends test mode with the message and the final
  \<^verbatim>\<open>return EXIT_SUCCESS\<close>.\<close>

lemma test_open_failure_returns_0:
  assumes "0 \<le> SDL_Init env" and "str2int arg = Some n" and "SDL_JoystickOpen env n = None"
    and "a = ''--test'' \<or> a = ''-t''"
  shows "main [prg, a, arg] env = Exited 0 \<lparr>out = [], err = unable_to_open n, screen = []\<rparr>"
  using assms
  by (auto simp: main_def test_mode_def return_main_def fprintf_stderr_def no_output_def
      EXIT_SUCCESS_def)

lemma event_open_failure_returns_0:
  assumes "0 \<le> SDL_Init env" and "str2int arg = Some n" and "SDL_JoystickOpen env n = None"
    and "a = ''--event'' \<or> a = ''-e''"
  shows "main [prg, a, arg] env =
           Exited 0 \<lparr>out = [], err = unable_to_open n @ unable_to_init env, screen = []\<rparr>"
  using assms
  by (auto simp: main_def event_mode_def return_main_def fprintf_stderr_def no_output_def
      EXIT_SUCCESS_def)

text \<open>
  Claim C2 at \<^verbatim>\<open>--test 7\<close> and \<^verbatim>\<open>--event 7\<close> on a machine without joysticks: the index
  parses, the open fails, the message is written, and the exit code is 0.
\<close>

theorem open_failure_exits_with_success:
  "main [''sdl-jstest'', ''--test'', ''7''] no_joysticks =
     Exited 0 \<lparr>out = [], err = ''Unable to open joystick 7'' @ [newline], screen = []\<rparr> \<and>
   main [''sdl-jstest'', ''--event'', ''7''] no_joysticks =
     Exited 0 \<lparr>out = [],
       err = ''Unable to open joystick 7'' @ [newline] @
             ''Unable to init SDL: There are 0 joysticks available'' @ [newline],
       screen = []\<rparr>"
  by (simp add: main_def test_mode_def event_mode_def no_joysticks_def strtol_eval return_main_def
      fprintf_stderr_def no_output_def unable_to_open_def unable_to_init_def printf_d_digit
      EXIT_SUCCESS_def)

text \<open>
  Claim C9 at \<^verbatim>\<open>--bogus\<close>: the two lines of the usage error go to stderr, and the exit
  code is 0.
\<close>

theorem unknown_arguments_exit_with_success:
  "main [''sdl-jstest'', ''--bogus''] no_joysticks =
     Exited 0 \<lparr>out = [],
       err = ''sdl-jstest: unknown arguments'' @ [newline] @
             ''Try '' @ [squote] @ ''sdl-jstest --help'' @ [squote] @ '' for more informations'' @
             [newline],
       screen = []\<rparr>"
  by (simp add: main_def no_joysticks_def return_main_def
      fprintf_stderr_def no_output_def unknown_arguments_def EXIT_SUCCESS_def)




subsection \<open>The hat diagram\<close>


subsection \<open>The event switch and the poll loop\<close>

lemma dispatch_counts:
  "dispatch st w e = Some (st', w') \<Longrightarrow>
     num_axes st' = num_axes st \<and> num_buttons st' = num_buttons st \<and>
     num_hats st' = num_hats st \<and> num_balls st' = num_balls st \<and>
     something_new st' = something_new st"
  by (cases e) (auto split: if_splits)

lemma dispatch_None_iff: "(dispatch st w e = None) = (\<not> index_within st e)"
  by (cases e) auto

lemma index_within_counts:
  "num_axes a = num_axes b \<Longrightarrow> num_buttons a = num_buttons b \<Longrightarrow> num_hats a = num_hats b \<Longrightarrow>
   num_balls a = num_balls b \<Longrightarrow> index_within a e = index_within b e"
  by (cases e) auto

lemma dispatch_allocated:
  "allocated st \<Longrightarrow> dispatch st w e = Some (st', w') \<Longrightarrow> allocated st'"
  by (cases e) (auto simp: allocated_def split: if_splits)

lemma dispatch_quit_kept: "dispatch st w e = Some (st', w') \<Longrightarrow> quit st = 1 \<Longrightarrow> quit st' = 1"
  by (cases e) (auto split: if_splits)

lemma poll_events_None_iff:
  "(poll_events st w evs = None) = (\<exists>e\<in>set evs. \<not> index_within st e)"
proof (induction evs arbitrary: st w)
  case Nil
  show ?case by simp
next
  case (Cons e es)
  show ?case
  proof (cases "dispatch (st\<lparr>something_new := True\<rparr>) w e")
    case None
    then have "\<not> index_within (st\<lparr>something_new := True\<rparr>) e"
      by (simp add: dispatch_None_iff)
    then have "\<not> index_within st e"
      by (simp add: index_within_counts [of "st\<lparr>something_new := True\<rparr>" st])
    then show ?thesis using None by simp
  next
    case (Some p)
    obtain st' w' where p: "p = (st', w')" by (cases p)
    have ok: "index_within st e"
      using Some dispatch_None_iff [of "st\<lparr>something_new := True\<rparr>" w e]
      by (simp add: index_within_counts [of "st\<lparr>something_new := True\<rparr>" st])
    have same: "\<And>x. index_within st' x = index_within st x"
      using dispatch_counts [OF Some [unfolded p]] by (intro index_within_counts) simp_all
    show ?thesis using Some p ok Cons.IH [of st' w'] by (simp add: same)
  qed
qed

lemma poll_events_allocated:
  "allocated st \<Longrightarrow> poll_events st w evs = Some (st', w') \<Longrightarrow> allocated st'"
proof (induction evs arbitrary: st w)
  case Nil
  then show ?case by simp
next
  case (Cons e es)
  from Cons.prems(2) obtain s1 w1 where
    d: "dispatch (st\<lparr>something_new := True\<rparr>) w e = Some (s1, w1)" and
    r: "poll_events s1 w1 es = Some (st', w')"
    by (auto split: option.splits)
  have "allocated (st\<lparr>something_new := True\<rparr>)" using Cons.prems(1) by (simp add: allocated_def)
  then have "allocated s1" using d by (rule dispatch_allocated)
  then show ?case using r by (rule Cons.IH)
qed

lemma poll_events_counts:
  "poll_events st w evs = Some (st', w') \<Longrightarrow>
     num_axes st' = num_axes st \<and> num_buttons st' = num_buttons st \<and>
     num_hats st' = num_hats st \<and> num_balls st' = num_balls st"
proof (induction evs arbitrary: st w)
  case Nil
  then show ?case by simp
next
  case (Cons e es)
  from Cons.prems obtain s1 w1 where
    d: "dispatch (st\<lparr>something_new := True\<rparr>) w e = Some (s1, w1)" and
    r: "poll_events s1 w1 es = Some (st', w')"
    by (auto split: option.splits)
  show ?case using dispatch_counts [OF d] Cons.IH [OF r] by simp
qed

lemma poll_events_append:
  "poll_events st w (xs @ ys) =
     (case poll_events st w xs of None \<Rightarrow> None | Some (s, x) \<Rightarrow> poll_events s x ys)"
  by (induction xs arbitrary: st w) (auto split: option.splits)

lemma poll_events_quit_kept:
  "poll_events st w evs = Some (st', w') \<Longrightarrow> quit st = 1 \<Longrightarrow> quit st' = 1"
proof (induction evs arbitrary: st w)
  case Nil
  then show ?case by simp
next
  case (Cons e es)
  from Cons.prems(1) obtain s1 w1 where
    d: "dispatch (st\<lparr>something_new := True\<rparr>) w e = Some (s1, w1)" and
    r: "poll_events s1 w1 es = Some (st', w')"
    by (auto split: option.splits)
  have "quit s1 = 1" using dispatch_quit_kept [OF d] Cons.prems(2) by simp
  then show ?case using Cons.IH [OF r] by simp
qed

lemma poll_events_new_kept:
  "poll_events st w evs = Some (st', w') \<Longrightarrow> something_new st \<Longrightarrow> something_new st'"
proof (induction evs arbitrary: st w)
  case Nil
  then show ?case by simp
next
  case (Cons e es)
  from Cons.prems(1) obtain s1 w1 where
    d: "dispatch (st\<lparr>something_new := True\<rparr>) w e = Some (s1, w1)" and
    r: "poll_events s1 w1 es = Some (st', w')"
    by (auto split: option.splits)
  have "something_new s1" using dispatch_counts [OF d] by simp
  then show ?case using Cons.IH [OF r] by simp
qed

lemma poll_events_sets_new:
  "poll_events st w (e # es) = Some (st', w') \<Longrightarrow> something_new st'"
proof -
  assume a: "poll_events st w (e # es) = Some (st', w')"
  then obtain s1 w1 where
    d: "dispatch (st\<lparr>something_new := True\<rparr>) w e = Some (s1, w1)" and
    r: "poll_events s1 w1 es = Some (st', w')"
    by (auto split: option.splits)
  have "something_new s1" using dispatch_counts [OF d] by simp
  then show ?thesis using poll_events_new_kept [OF r] by simp
qed

lemma allocated_init_state:
  "0 \<le> na \<Longrightarrow> 0 \<le> nb \<Longrightarrow> 0 \<le> nh \<Longrightarrow> 0 \<le> nl \<Longrightarrow> allocated (init_state na nb nh nl)"
  by (simp add: allocated_def init_state_def)

lemma test_tick_allocated:
  "allocated st \<Longrightarrow> test_tick env joy_idx st w t = Some (st', w') \<Longrightarrow> allocated st'"
proof -
  assume a: "allocated st" and t: "test_tick env joy_idx st w t = Some (st', w')"
  from t obtain s1 w1 where p: "poll_events st w (fst t) = Some (s1, w1)"
    and st': "st' = check_key (snd t) (fst (render_if_new env joy_idx s1 w1))"
    by (auto simp: test_tick_def split: option.splits prod.splits)
  have "allocated s1" using a p by (rule poll_events_allocated)
  then show ?thesis by (simp add: st' allocated_def check_key_def render_if_new_def)
qed

lemma test_tick_None_iff:
  "(test_tick env joy_idx st w (evs, key) = None) = (poll_events st w evs = None)"
  by (auto simp: test_tick_def split: option.splits prod.splits)

text \<open>The snapshot of the gamepad right after allocation.\<close>

lemma init_state_2111:
  "init_state 2 1 1 1 =
     \<lparr>num_axes = 2, num_buttons = 1, num_hats = 1, num_balls = 1,
      axes = [0, 0], buttons = [0], hats = [0], balls = [0, 0], quit = 0, something_new = True\<rparr>"
  by (simp add: init_state_def eval_nat_numeral)

lemma allocated_2111: "allocated (init_state 2 1 1 1)"
  by (simp add: init_state_2111 allocated_def)

subsection \<open>The quit event\<close>

lemma poll_quit_then_axis:
  "poll_events (init_state 2 1 1 1) no_output [SDL_QUIT, SDL_JOYAXISMOTION 0 1 5] =
     Some ((init_state 2 1 1 1)\<lparr>axes := [0, 5], quit := 1\<rparr>,
           printf (''Recieved interrupt, exiting'' @ [newline]) no_output)"
  by (simp add: init_state_2111)

text \<open>
  Claim C3, as the code has it. When the quit event is popped in a pass of the loop
  (after the events \<open>pre\<close>, before the events \<open>post\<close>) and no assertion fails in the
  batch: the notice is printed and \<^verbatim>\<open>quit\<close> is set at that point, the events of
  \<open>post\<close> are then dispatched all the same, \<^verbatim>\<open>quit\<close> is still set when the batch is
  drained, the frame is painted, and the loop is left at its next check, whatever
  passes \<open>rest\<close> would have followed.
\<close>

theorem quit_ends_loop_after_the_batch:
  assumes "quit st = 0"
    and "poll_events st w (pre @ SDL_QUIT # post) = Some (st1, w1)"
  shows "(\<exists>s0 w0. poll_events st w pre = Some (s0, w0) \<and>
            poll_events (s0\<lparr>something_new := True, quit := 1\<rparr>)
              (printf (''Recieved interrupt, exiting'' @ [newline]) w0) post = Some (st1, w1)) \<and>
         quit st1 = 1 \<and> something_new st1 \<and>
         test_loop env joy_idx st w ((pre @ SDL_QUIT # post, key) # rest) =
           Left_loop (check_key key (st1\<lparr>something_new := False\<rparr>))
             (w1\<lparr>screen := screen w1 @ [render env joy_idx st1]\<rparr>)"
proof -
  from assms(2) obtain s0 w0 where
    p: "poll_events st w pre = Some (s0, w0)" and
    q: "poll_events s0 w0 (SDL_QUIT # post) = Some (st1, w1)"
    by (auto simp: poll_events_append split: option.splits)
  from q have r: "poll_events (s0\<lparr>something_new := True, quit := 1\<rparr>)
       (printf (''Recieved interrupt, exiting'' @ [newline]) w0) post = Some (st1, w1)"
    by simp
  have q1: "quit st1 = 1" using poll_events_quit_kept [OF r] by simp
  have n1: "something_new st1" using poll_events_sets_new [OF q] .
  have tick: "test_tick env joy_idx st w (pre @ SDL_QUIT # post, key) =
      Some (check_key key (st1\<lparr>something_new := False\<rparr>),
            w1\<lparr>screen := screen w1 @ [render env joy_idx st1]\<rparr>)"
    using assms(2) n1 by (simp add: test_tick_def render_if_new_def)
  have q2: "quit (check_key key (st1\<lparr>something_new := False\<rparr>)) \<noteq> 0"
    using q1 by (simp add: check_key_def)
  have loop: "test_loop env joy_idx st w ((pre @ SDL_QUIT # post, key) # rest) =
           Left_loop (check_key key (st1\<lparr>something_new := False\<rparr>))
             (w1\<lparr>screen := screen w1 @ [render env joy_idx st1]\<rparr>)"
    using assms(1) tick q2 by (cases rest) simp_all
  show ?thesis using p r q1 n1 loop by blast
qed

text \<open>The theorem on the gamepad: quit, then a motion of axis 1, in one batch; one more
  pass would follow.\<close>

theorem quit_ends_loop_after_the_batch_witness:
  "quit ((init_state 2 1 1 1)\<lparr>axes := [0, 5], quit := 1\<rparr>) = 1 \<and>
   test_loop one_gamepad 0 (init_state 2 1 1 1) no_output
     [([SDL_QUIT, SDL_JOYAXISMOTION 0 1 5], - 1), ([SDL_JOYAXISMOTION 0 0 7], - 1)] =
   Left_loop
     (check_key (- 1) ((init_state 2 1 1 1)\<lparr>axes := [0, 5], quit := 1, something_new := False\<rparr>))
     (printf (''Recieved interrupt, exiting'' @ [newline]) no_output
        \<lparr>screen := [render one_gamepad 0 ((init_state 2 1 1 1)\<lparr>axes := [0, 5], quit := 1\<rparr>)]\<rparr>)"
  using quit_ends_loop_after_the_batch
    [of "init_state 2 1 1 1" no_output "[]" "[SDL_JOYAXISMOTION 0 1 5]"
        "(init_state 2 1 1 1)\<lparr>axes := [0, 5], quit := 1\<rparr>"
        "printf (''Recieved interrupt, exiting'' @ [newline]) no_output"
        one_gamepad 0 "- 1" "[([SDL_JOYAXISMOTION 0 0 7], - 1)]"]
    poll_quit_then_axis
  by (simp add: init_state_2111 printf_def no_output_def)

text \<open>
  Claim C3 as stated fails: the dispatcher does not stop at the quit event. With quit
  followed by a motion of axis 1 in one batch, axis 1 holds the new value 5 after the
  drain; a drain that stopped at the quit event would have left it 0. And with quit
  followed by a motion of axis 2 (the gamepad has axes 0 and 1), the assertion of that
  later event aborts the run before the loop reaches its next check.
\<close>

theorem events_after_quit_applied_counterexample:
  "map_option (axes \<circ> fst)
     (poll_events (init_state 2 1 1 1) no_output [SDL_QUIT, SDL_JOYAXISMOTION 0 1 5]) =
     Some [0, 5] \<and>
   map_option (axes \<circ> fst) (poll_events (init_state 2 1 1 1) no_output [SDL_QUIT]) =
     Some [0, 0] \<and>
   test_loop one_gamepad 0 (init_state 2 1 1 1) no_output
     [([SDL_QUIT, SDL_JOYAXISMOTION 0 2 5], - 1)] = Assert_failed"
  by (simp add: init_state_2111 test_tick_def)

subsection \<open>The flag \<^verbatim>\<open>something_new\<close>\<close>











subsection \<open>A run of test mode\<close>

text \<open>
  \<^verbatim>\<open>--test 0\<close> on the gamepad: the first pass paints the initial snapshot, the second
  paints nothing, the third dispatches the quit event and the two events behind it,
  paints, and leaves the loop; the fourth batch is never polled. The run ends with the
  notice on stdout, two frames and the exit code 0.
\<close>

lemma gamepad_loop:
  "test_loop env 0 (init_state 2 1 1 1) no_output
     [([], - 1), ([], - 1),
      ([SDL_QUIT, SDL_JOYAXISMOTION 0 1 5, SDL_JOYHATMOTION 0 0 9], - 1),
      ([SDL_JOYAXISMOTION 0 0 7], - 1)] =
   Left_loop ((init_state 2 1 1 1)\<lparr>axes := [0, 5], hats := [9], quit := 1, something_new := False\<rparr>)
     \<lparr>out = ''Recieved interrupt, exiting'' @ [newline], err = [],
      screen =
        [render env 0 (init_state 2 1 1 1),
         render env 0 ((init_state 2 1 1 1)\<lparr>axes := [0, 5], hats := [9], quit := 1\<rparr>)]\<rparr>"
  by (simp add: init_state_2111 test_tick_def render_if_new_def check_key_def no_output_def
      printf_def)

lemma test_run_on_gamepad:
  "main [''sdl-jstest'', ''--test'', ''0''] one_gamepad =
     Exited 0
       \<lparr>out = ''Recieved interrupt, exiting'' @ [newline], err = [],
        screen =
          [render one_gamepad 0 (init_state 2 1 1 1),
           render one_gamepad 0
             ((init_state 2 1 1 1)\<lparr>axes := [0, 5], hats := [9], quit := 1\<rparr>)]\<rparr>"
proof -
  have g: "SDL_Init one_gamepad = 0"
    "SDL_JoystickOpen one_gamepad 0 =
       Some \<lparr>joy_axes = 2, joy_buttons = 1, joy_hats = 1, joy_balls = 1\<rparr>"
    "test_ticks one_gamepad =
       [([], - 1), ([], - 1),
        ([SDL_QUIT, SDL_JOYAXISMOTION 0 1 5, SDL_JOYHATMOTION 0 0 9], - 1),
        ([SDL_JOYAXISMOTION 0 0 7], - 1)]"
    by (simp_all add: one_gamepad_def)
  show ?thesis
    by (simp add: main_def test_mode_def str2int_accepts g gamepad_loop return_main_def
        EXIT_SUCCESS_def del: test_loop.simps)
qed

subsection \<open>Bounds of the component index\<close>

lemma unat_less_count: "uint (c :: 'a::len word) < n \<Longrightarrow> unat c < nat n"
proof -
  assume a: "uint c < n"
  have "int (unat c) = uint c" by simp
  then have "int (unat c) < n" using a by simp
  then show ?thesis by linarith
qed

lemma writes_in_bounds:
  assumes "allocated st"
  shows "dispatch st w (SDL_JOYAXISMOTION which c v) = Some (st', w') \<Longrightarrow>
           unat c < length (axes st)"
    and "dispatch st w (SDL_JOYBUTTONDOWN which c b) = Some (st', w') \<Longrightarrow>
           unat c < length (buttons st)"
    and "dispatch st w (SDL_JOYBUTTONUP which c b) = Some (st', w') \<Longrightarrow>
           unat c < length (buttons st)"
    and "dispatch st w (SDL_JOYHATMOTION which c b) = Some (st', w') \<Longrightarrow>
           unat c < length (hats st)"
    and "dispatch st w (SDL_JOYBALLMOTION which c x y) = Some (st', w') \<Longrightarrow>
           2 * unat c + 1 < length (balls st)"
  using assms by (auto simp: allocated_def split: if_splits dest: unat_less_count)

text \<open>
  Claim C7. On a snapshot with its arrays as allocated: an event is dispatched only if
  the component it addresses is below the declared count, and otherwise the assertion
  aborts, for one event, for the batch of a pass, for the pass and for the loop (there
  is no result with a snapshot then, so nothing was written and nothing recovers).
  Where the batch is dispatched, every write was inside its array: the array lengths
  are those of the allocation, and the index written is below the length.
\<close>

theorem out_of_range_index_aborts:
  assumes "allocated st"
  shows "(dispatch st w e = None) = (\<not> index_within st e) \<and>
         (poll_events st w evs = None) = (\<exists>x\<in>set evs. \<not> index_within st x) \<and>
         (test_tick env joy_idx st w (evs, key) = None) = (\<exists>x\<in>set evs. \<not> index_within st x) \<and>
         (quit st = 0 \<and> (\<exists>x\<in>set evs. \<not> index_within st x) \<longrightarrow>
            test_loop env joy_idx st w ((evs, key) # rest) = Assert_failed) \<and>
         (\<forall>st' w'. poll_events st w evs = Some (st', w') \<longrightarrow>
            allocated st' \<and> length (axes st') = length (axes st) \<and>
            length (buttons st') = length (buttons st) \<and> length (hats st') = length (hats st) \<and>
            length (balls st') = length (balls st)) \<and>
         (\<forall>which c v st' w'. dispatch st w (SDL_JOYAXISMOTION which c v) = Some (st', w') \<longrightarrow>
            unat c < length (axes st)) \<and>
         (\<forall>which c b st' w'. dispatch st w (SDL_JOYBUTTONDOWN which c b) = Some (st', w') \<longrightarrow>
            unat c < length (buttons st)) \<and>
         (\<forall>which c b st' w'. dispatch st w (SDL_JOYBUTTONUP which c b) = Some (st', w') \<longrightarrow>
            unat c < length (buttons st)) \<and>
         (\<forall>which c h st' w'. dispatch st w (SDL_JOYHATMOTION which c h) = Some (st', w') \<longrightarrow>
            unat c < length (hats st)) \<and>
         (\<forall>which c x y st' w'. dispatch st w (SDL_JOYBALLMOTION which c x y) = Some (st', w') \<longrightarrow>
            2 * unat c + 1 < length (balls st))"
proof -
  have lens: "\<forall>st' w'. poll_events st w evs = Some (st', w') \<longrightarrow>
            allocated st' \<and> length (axes st') = length (axes st) \<and>
            length (buttons st') = length (buttons st) \<and> length (hats st') = length (hats st) \<and>
            length (balls st') = length (balls st)"
  proof (intro allI impI)
    fix st' w'
    assume p: "poll_events st w evs = Some (st', w')"
    have a: "allocated st'" using assms p by (rule poll_events_allocated)
    show "allocated st' \<and> length (axes st') = length (axes st) \<and>
            length (buttons st') = length (buttons st) \<and> length (hats st') = length (hats st) \<and>
            length (balls st') = length (balls st)"
      using a assms poll_events_counts [OF p] by (simp add: allocated_def)
  qed
  have loop: "quit st = 0 \<and> (\<exists>x\<in>set evs. \<not> index_within st x) \<longrightarrow>
            test_loop env joy_idx st w ((evs, key) # rest) = Assert_failed"
    using test_tick_None_iff [of env joy_idx st w evs key] poll_events_None_iff [of st w evs]
    by auto
  show ?thesis
    using lens loop writes_in_bounds [OF assms]
    by (simp add: dispatch_None_iff poll_events_None_iff test_tick_None_iff)
qed

text \<open>The theorem on the gamepad (two axes, one ball): a motion of axis 2 in a batch and
  a motion of ball 1 abort, a motion of ball 0 does not.\<close>

theorem out_of_range_index_aborts_witness:
  "poll_events (init_state 2 1 1 1) no_output
     [SDL_JOYAXISMOTION 0 1 5, SDL_JOYAXISMOTION 0 2 5] = None \<and>
   test_loop one_gamepad 0 (init_state 2 1 1 1) no_output
     [([SDL_JOYAXISMOTION 0 1 5, SDL_JOYAXISMOTION 0 2 5], - 1)] = Assert_failed \<and>
   dispatch (init_state 2 1 1 1) no_output (SDL_JOYBALLMOTION 0 1 3 4) = None \<and>
   dispatch (init_state 2 1 1 1) no_output (SDL_JOYBALLMOTION 0 0 3 4) \<noteq> None"
  using out_of_range_index_aborts [OF allocated_2111, of no_output "SDL_JOYBALLMOTION 0 1 3 4"
      "[SDL_JOYAXISMOTION 0 1 5, SDL_JOYAXISMOTION 0 2 5]" one_gamepad 0 "- 1" "[]"]
    out_of_range_index_aborts [OF allocated_2111, of no_output "SDL_JOYBALLMOTION 0 0 3 4" "[]"
      one_gamepad 0 0 "[]"]
  by (simp add: init_state_2111)

subsection \<open>An axis motion touches one axis\<close>

lemma map_upt_update:
  assumes "k < n"
  shows "map (\<lambda>j. f j (xs[k := v] ! j)) [0..<n] =
         (map (\<lambda>j. f j (xs ! j)) [0..<n])[k := f k (xs[k := v] ! k)]"
  using assms by (intro nth_equalityI) (auto simp: nth_list_update)

text \<open>The pass in which the motion is the one pending event paints the snapshot the
  dispatch has left.\<close>

lemma axis_motion_tick:
  assumes "allocated st"
    and "dispatch st w (SDL_JOYAXISMOTION which i v) = Some (st', w')"
  shows "test_tick env joy_idx st w ([SDL_JOYAXISMOTION which i v], key) =
           Some (check_key key (st'\<lparr>something_new := False\<rparr>),
                 w\<lparr>screen := screen w @ [render env joy_idx st']\<rparr>)"
proof -
  have st': "st' = st\<lparr>axes := (axes st)[unat i := v]\<rparr>" and w': "w' = w"
    and inb: "uint i < num_axes st"
    using assms(2) by (auto split: if_splits)
  have "render env joy_idx (st\<lparr>something_new := True, axes := (axes st)[unat i := v]\<rparr>) =
        render env joy_idx st'"
    by (simp add: st' render_def axis_rows_def button_rows_def hat_rows_def ball_rows_def)
  then show ?thesis
    using inb by (simp add: test_tick_def render_if_new_def st')
qed

lemma axis_rows_after_motion:
  assumes "k < n" and "length xs = n"
  shows "map (\<lambda>j. f j (xs[k := v] ! j)) [0..<n] =
         map (\<lambda>j. f j (if j = k then v else xs ! j)) [0..<n]"
  using assms by (intro map_cong) (auto simp: nth_list_update)

lemma shown_value_reads_back: "str2int (printf_d (sint (a :: Sint16))) = Some (sint a)"
  using sint16_range [of a]
  by (intro str2int_printf_d) (simp add: int_fits_def INT_MIN_def INT_MAX_def)

text \<open>The frame of the gamepad after axis 1 has moved to 5, character by character.\<close>

lemma frame_after_axis_motion:
  "render one_gamepad 0 ((init_state 2 1 1 1)\<lparr>axes := [0, 5]\<rparr>) =
     ''Joystick Name:   '' @ [CHR 0x27] @ ''Gamepad'' @ [CHR 0x27] @ ''\<newline>'' @
     ''Joystick Number: 0\<newline>'' @
     ''\<newline>'' @
     ''Axes  2:\<newline>'' @
     ''   0:      0  ['' @ replicate 29 CHR '' '' @ ''#'' @ replicate 30 CHR '' '' @ '']\<newline>'' @
     ''   1:      5  ['' @ replicate 29 CHR '' '' @ ''#'' @ replicate 30 CHR '' '' @ '']\<newline>'' @
     ''\<newline>'' @
     ''Buttons  1:\<newline>'' @
     ''   0: 0  [ ]\<newline>'' @
     ''\<newline>'' @
     ''Hats  1:\<newline>'' @
     ''   0: value: 0\<newline>'' @
     ''  +-----+  up:    0\<newline>'' @
     ''  |     |  down:  0\<newline>'' @
     ''  |  O  |  left:  0\<newline>'' @
     ''  |     |  right: 0\<newline>'' @
     ''  +-----+\<newline>'' @
     ''\<newline>'' @
     ''Balls  1:    0:      0      0\<newline>'' @
     ''\<newline>'' @
     ''\<newline>'' @
     ''Press Ctrl-c to exit\<newline>''"
  by code_simp

text \<open>
  Claim C8. When the motion of axis \<open>i\<close> to the value \<open>v\<close> is dispatched on a snapshot
  with its arrays as allocated: axis \<open>i\<close> holds \<open>v\<close>, every other axis and all buttons,
  hats and balls hold what they held, nothing is printed; the pass that polled the
  event paints the frame of the new snapshot. That frame is spelled out: the header,
  the axis rows, then the sections of the buttons, hats and balls with the rows of the
  snapshot before. Axis row \<open>j\<close> is the index \<open>j\<close> in a field of 2, the value in a field
  of 6 and the bar, where the value is \<open>v\<close> for \<open>j = i\<close> and the old value of axis \<open>j\<close>
  otherwise; the decimal text shown for \<open>v\<close> reads back as \<open>v\<close>.
\<close>

theorem axis_motion_isolated:
  assumes "allocated st"
    and "dispatch st w (SDL_JOYAXISMOTION which i v) = Some (st', w')"
  shows "unat i < length (axes st) \<and> axes st' = (axes st)[unat i := v] \<and>
         axes st' ! unat i = v \<and> (\<forall>j. j \<noteq> unat i \<longrightarrow> axes st' ! j = axes st ! j) \<and>
         buttons st' = buttons st \<and> hats st' = hats st \<and> balls st' = balls st \<and> w' = w \<and>
         test_tick env joy_idx st w ([SDL_JOYAXISMOTION which i v], key) =
           Some (check_key key (st'\<lparr>something_new := False\<rparr>),
                 w\<lparr>screen := screen w @ [render env joy_idx st']\<rparr>) \<and>
         render env joy_idx st' =
           ''Joystick Name:   '' @ [CHR 0x27] @ SDL_JoystickName env joy_idx @ [CHR 0x27] @
           ''\<newline>'' @
           ''Joystick Number: '' @ printf_d joy_idx @ ''\<newline>'' @
           ''\<newline>'' @
           ''Axes '' @ printf_wd 2 (num_axes st) @ '':\<newline>'' @
           concat (map (\<lambda>j. axis_row (COLS env) j (if j = unat i then v else axes st ! j))
                     [0..<nat (num_axes st)]) @
           ''\<newline>'' @
           ''Buttons '' @ printf_wd 2 (num_buttons st) @ '':\<newline>'' @
           concat (button_rows st) @
           ''\<newline>'' @
           ''Hats '' @ printf_wd 2 (num_hats st) @ '':\<newline>'' @
           concat (hat_rows st) @
           ''\<newline>'' @
           ''Balls '' @ printf_wd 2 (num_balls st) @ '': '' @
           concat (ball_rows st) @
           ''\<newline>'' @
           ''\<newline>'' @
           ''Press Ctrl-c to exit\<newline>'' \<and>
         (\<forall>j a. axis_row cols j a =
            ''  '' @ printf_wd 2 (int j) @ '': '' @ printf_wd 6 (sint a) @ ''  '' @
            print_bar (fill_pos (sint a) (cols - 20)) (cols - 20) @ ''\<newline>'') \<and>
         printf_wd 6 (sint v) =
           replicate (6 - length (printf_d (sint v))) CHR '' '' @ printf_d (sint v) \<and>
         str2int (printf_d (sint v)) = Some (sint v) \<and>
         axis_rows cols st' =
           map (\<lambda>j. axis_row cols j (if j = unat i then v else axes st ! j))
             [0..<nat (num_axes st)] \<and>
         axis_rows cols st = map (\<lambda>j. axis_row cols j (axes st ! j)) [0..<nat (num_axes st)] \<and>
         axis_rows cols st' = (axis_rows cols st)[unat i := axis_row cols (unat i) v] \<and>
         unat i < length (axis_rows cols st) \<and>
         button_rows st' = button_rows st \<and> hat_rows st' = hat_rows st \<and>
         ball_rows st' = ball_rows st"
proof -
  have inb: "unat i < length (axes st)" using writes_in_bounds(1) [OF assms] .
  have n: "length (axes st) = nat (num_axes st)" using assms(1) by (simp add: allocated_def)
  have st': "st' = st\<lparr>axes := (axes st)[unat i := v]\<rparr>" and w': "w' = w"
    using assms(2) by (auto split: if_splits)
  have rows: "axis_rows cols st' = (axis_rows cols st)[unat i := axis_row cols (unat i) v]"
    using inb n map_upt_update [of "unat i" "nat (num_axes st)" "axis_row cols" "axes st" v]
    by (simp add: axis_rows_def st')
  have each: "\<And>c. axis_rows c st' =
           map (\<lambda>j. axis_row c j (if j = unat i then v else axes st ! j))
             [0..<nat (num_axes st)]"
    using inb n
      axis_rows_after_motion [of "unat i" "nat (num_axes st)" "axes st" _ v]
    by (simp add: axis_rows_def st')
  have old: "axis_rows cols st = map (\<lambda>j. axis_row cols j (axes st ! j)) [0..<nat (num_axes st)]"
    by (simp add: axis_rows_def)
  have tick: "test_tick env joy_idx st w ([SDL_JOYAXISMOTION which i v], key) =
           Some (check_key key (st'\<lparr>something_new := False\<rparr>),
                 w\<lparr>screen := screen w @ [render env joy_idx st']\<rparr>)"
    using assms by (rule axis_motion_tick)
  have same: "button_rows st' = button_rows st" "hat_rows st' = hat_rows st"
    "ball_rows st' = ball_rows st" "num_axes st' = num_axes st"
    "num_buttons st' = num_buttons st" "num_hats st' = num_hats st"
    "num_balls st' = num_balls st"
    by (simp_all add: st' button_rows_def hat_rows_def ball_rows_def)
  have frame: "render env joy_idx st' =
           ''Joystick Name:   '' @ [CHR 0x27] @ SDL_JoystickName env joy_idx @ [CHR 0x27] @
           ''\<newline>'' @
           ''Joystick Number: '' @ printf_d joy_idx @ ''\<newline>'' @
           ''\<newline>'' @
           ''Axes '' @ printf_wd 2 (num_axes st) @ '':\<newline>'' @
           concat (map (\<lambda>j. axis_row (COLS env) j (if j = unat i then v else axes st ! j))
                     [0..<nat (num_axes st)]) @
           ''\<newline>'' @
           ''Buttons '' @ printf_wd 2 (num_buttons st) @ '':\<newline>'' @
           concat (button_rows st) @
           ''\<newline>'' @
           ''Hats '' @ printf_wd 2 (num_hats st) @ '':\<newline>'' @
           concat (hat_rows st) @
           ''\<newline>'' @
           ''Balls '' @ printf_wd 2 (num_balls st) @ '': '' @
           concat (ball_rows st) @
           ''\<newline>'' @
           ''\<newline>'' @
           ''Press Ctrl-c to exit\<newline>''"
    unfolding render_def same each [of "COLS env"]
    by (simp add: newline_def squote_def)
  have row: "\<forall>j a. axis_row cols j a =
            ''  '' @ printf_wd 2 (int j) @ '': '' @ printf_wd 6 (sint a) @ ''  '' @
            print_bar (fill_pos (sint a) (cols - 20)) (cols - 20) @ ''\<newline>''"
    by (simp add: axis_row_def Let_def newline_def)
  have field: "printf_wd 6 (sint v) =
           replicate (6 - length (printf_d (sint v))) CHR '' '' @ printf_d (sint v)"
    by (simp add: printf_wd_def)
  have reads: "str2int (printf_d (sint v)) = Some (sint v)" by (rule shown_value_reads_back)
  have state: "unat i < length (axes st) \<and> axes st' = (axes st)[unat i := v] \<and>
         axes st' ! unat i = v \<and> (\<forall>j. j \<noteq> unat i \<longrightarrow> axes st' ! j = axes st ! j) \<and>
         buttons st' = buttons st \<and> hats st' = hats st \<and> balls st' = balls st \<and> w' = w \<and>
         unat i < length (axis_rows cols st)"
    using inb n by (simp add: st' w' axis_rows_def)
  show ?thesis
    using state tick frame row field reads each [of cols] old rows same(1,2,3) by blast
qed

text \<open>The theorem on the gamepad: axis 1 moves to 5. The pass paints one frame, given
  character by character; its row of axis 1 shows 5 and its row of axis 0 shows 0.\<close>

theorem axis_motion_isolated_witness:
  "axes ((init_state 2 1 1 1)\<lparr>axes := [0, 5]\<rparr>) ! unat (1 :: Uint8) = 5 \<and>
   test_tick one_gamepad 0 (init_state 2 1 1 1) no_output ([SDL_JOYAXISMOTION 0 1 5], - 1) =
     Some ((init_state 2 1 1 1)\<lparr>axes := [0, 5], something_new := False\<rparr>,
           \<lparr>out = [], err = [],
            screen =
              [''Joystick Name:   '' @ [CHR 0x27] @ ''Gamepad'' @ [CHR 0x27] @ ''\<newline>'' @
               ''Joystick Number: 0\<newline>'' @
               ''\<newline>'' @
               ''Axes  2:\<newline>'' @
               ''   0:      0  ['' @ replicate 29 CHR '' '' @ ''#'' @ replicate 30 CHR '' '' @
               '']\<newline>'' @
               ''   1:      5  ['' @ replicate 29 CHR '' '' @ ''#'' @ replicate 30 CHR '' '' @
               '']\<newline>'' @
               ''\<newline>'' @
               ''Buttons  1:\<newline>'' @
               ''   0: 0  [ ]\<newline>'' @
               ''\<newline>'' @
               ''Hats  1:\<newline>'' @
               ''   0: value: 0\<newline>'' @
               ''  +-----+  up:    0\<newline>'' @
               ''  |     |  down:  0\<newline>'' @
               ''  |  O  |  left:  0\<newline>'' @
               ''  |     |  right: 0\<newline>'' @
               ''  +-----+\<newline>'' @
               ''\<newline>'' @
               ''Balls  1:    0:      0      0\<newline>'' @
               ''\<newline>'' @
               ''\<newline>'' @
               ''Press Ctrl-c to exit\<newline>'']\<rparr>) \<and>
   str2int (printf_d (sint (5 :: Sint16))) = Some 5 \<and>
   button_rows ((init_state 2 1 1 1)\<lparr>axes := [0, 5]\<rparr>) = button_rows (init_state 2 1 1 1)"
proof -
  have d: "dispatch (init_state 2 1 1 1) no_output (SDL_JOYAXISMOTION 0 1 5) =
             Some ((init_state 2 1 1 1)\<lparr>axes := [0, 5]\<rparr>, no_output)"
    by (simp add: init_state_2111)
  note t = axis_motion_isolated [OF allocated_2111 d, where env = one_gamepad and joy_idx = 0
      and key = "- 1" and cols = 80]
  have a: "axes ((init_state 2 1 1 1)\<lparr>axes := [0, 5]\<rparr>) ! unat (1 :: Uint8) = 5"
    using t by blast
  have k: "test_tick one_gamepad 0 (init_state 2 1 1 1) no_output
             ([SDL_JOYAXISMOTION 0 1 5], - 1) =
           Some (check_key (- 1) ((init_state 2 1 1 1)\<lparr>axes := [0, 5], something_new := False\<rparr>),
                 no_output\<lparr>screen := screen no_output @
                   [render one_gamepad 0 ((init_state 2 1 1 1)\<lparr>axes := [0, 5]\<rparr>)]\<rparr>)"
    using t by blast
  have r: "str2int (printf_d (sint (5 :: Sint16))) = Some (sint (5 :: Sint16))"
    using t by blast
  have b: "button_rows ((init_state 2 1 1 1)\<lparr>axes := [0, 5]\<rparr>) = button_rows (init_state 2 1 1 1)"
    using t by blast
  show ?thesis
    using a k r b by (simp add: frame_after_axis_motion check_key_def no_output_def)
qed

end
